theory Spec2Isabelle
  imports Main "HOL-Library.AList"
begin

section \<open>Errors\<close>

text \<open>
  A Go \<open>error\<close> is either made with \<open>errors.New(msg)\<close> or wraps another error with
  \<open>fmt.Errorf("... %w", err)\<close>. In \<open>fmt_Errorf p e\<close> the string \<open>p\<close> is the formatted
  text that precedes the wrapped error \<open>e\<close>. Errors of the libraries the package calls
  are values of the same type.
\<close>

datatype error = errors_New string | fmt_Errorf string error

section \<open>Configuration (config.go)\<close>

text \<open>
  The settings of the batch and queue processors and of each receiver are types of the
  collector library; they are passed through untouched and are type parameters here
  (\<open>'b\<close>, \<open>'q\<close> and \<open>'a\<close>). A pointer field that may be \<open>nil\<close> is an \<open>option\<close>.
  The Go map \<open>Receivers\<close> is the list of its entries in the order in which a
  \<open>range\<close> loop visits them; a Go map holds each key once.
\<close>

record BasicAuthConfig =
  Username :: string
  Password :: string
  PasswordFile :: string

record ('b, 'q) RWConfig =
  URL :: string
  BasicAuth :: "BasicAuthConfig option"
  Batch :: "'b option"
  Queue :: "'q option"

record ('a, 'b, 'q) Config =
  Enabled :: bool
  RemoteWrite :: "('b, 'q) RWConfig"
  Receivers :: "(string \<times> 'a) list"

text \<open>
  The values stored in the \<open>map[string]interface{}\<close> that \<open>otelConfig\<close> builds: strings,
  string slices, the header map (\<open>None\<close> is the nil map), the pass-through settings and
  nested maps (entries in insertion order; only lookups are meaningful).
\<close>

datatype ('a, 'b, 'q) val =
    Str string
  | Strs "string list"
  | StrMap "(string \<times> string) list option"
  | BatchSettings 'b
  | QueueSettings 'q
  | ReceiverSettings 'a
  | Obj "(string \<times> ('a, 'b, 'q) val) list"

section \<open>The libraries the package calls\<close>

text \<open>The factories named in \<open>tracingFactories\<close>.\<close>

datatype factory =
    jaegerreceiver | zipkinreceiver | otlpreceiver
  | otlpexporter
  | queuedprocessor | batchprocessor

text \<open>
  \<open>config.Factories\<close>: four factory maps, each an opaque handle of the library. Its
  field \<open>Receivers\<close> is \<open>FReceivers\<close> here, the name being taken by \<open>Config\<close>.
\<close>

record 'h Factories =
  Extensions :: 'h
  FReceivers :: 'h
  Processors :: 'h
  Exporters :: 'h

text \<open>
  Every call that leaves the package, with its arguments. Objects made by the libraries
  (the logger, the loaded configuration, factory maps, built exporters, pipelines and
  receivers) are opaque handles of type \<open>'h\<close>; a struct field that still has its zero
  value is \<open>None\<close>. The viper instance of \<open>otelConfig\<close> is identified with the map merged
  into it. A \<open>Build\<close> call carries the arguments of its builder in the order of the
  source: the logger, the loaded configuration, the objects of the stage before (none
  for the exporters) and the factory map.
\<close>

datatype ('a, 'b, 'q, 'h) call =
    ioutil_ReadFile string
  | viper_MergeConfigMap "('a, 'b, 'q) val"
  | component_MakeExtensionFactoryMap "factory list"
  | component_MakeReceiverFactoryMap "factory list"
  | component_MakeExporterFactoryMap "factory list"
  | component_MakeProcessorFactoryMap "factory list"
  | config_Load "('a, 'b, 'q) val" "'h Factories"
  | zap_NewProduction
  | Logger_Error "'h option" string error
  | ExportersBuilder_Build "'h option" 'h 'h
  | Exporters_StartAll "'h option"
  | PipelinesBuilder_Build "'h option" 'h "'h option" 'h
  | BuiltPipelines_StartProcessors "'h option"
  | ReceiversBuilder_Build "'h option" 'h "'h option" 'h
  | Receivers_StartAll "'h option"
  | Receivers_ShutdownAll "'h option"
  | BuiltPipelines_ShutdownProcessors "'h option"

text \<open>
  The world outside the package: \<open>files\<close> is the file system as \<open>ioutil.ReadFile\<close> sees
  it, and \<open>respond\<close> gives the outcome of any other call from the calls made so far
  (oldest first) and the call itself: \<open>Inl e\<close> is a non-nil error, \<open>Inr h\<close> is success
  with the returned object \<open>h\<close> (ignored for a call that returns an error only).
\<close>

record ('a, 'b, 'q, 'h) world =
  files :: "string \<Rightarrow> error + string"
  respond :: "('a, 'b, 'q, 'h) call list \<Rightarrow> ('a, 'b, 'q, 'h) call \<Rightarrow> error + 'h"

text \<open>A call is appended to the history and answered by the world.\<close>

definition invoke ::
  "('a, 'b, 'q, 'h) world \<Rightarrow> ('a, 'b, 'q, 'h) call \<Rightarrow> ('a, 'b, 'q, 'h) call list
    \<Rightarrow> (error + 'h) \<times> ('a, 'b, 'q, 'h) call list" where
  "invoke W c tr = (respond W tr c, tr @ [c])"

definition ReadFile ::
  "('a, 'b, 'q, 'h) world \<Rightarrow> string \<Rightarrow> ('a, 'b, 'q, 'h) call list
    \<Rightarrow> (error + string) \<times> ('a, 'b, 'q, 'h) call list" where
  "ReadFile W path tr = (files W path, tr @ [ioutil_ReadFile path])"

subsection \<open>base64.StdEncoding\<close>

text \<open>
  Modelled from the spec: \<open>base64.StdEncoding.EncodeToString\<close> of the Go standard
  library, which the spec calls the standard base64 encoding (RFC 4648, section 4):
  three bytes become four characters of the alphabet below, and a last group of one or
  two bytes is padded with \<open>=\<close>. A Go string is a byte sequence, as \<open>string\<close> is here.
\<close>

definition encodeStd :: string where
  "encodeStd = ''ABCDEFGHIJKLMNOPQRSTUVWXYZabcdefghijklmnopqrstuvwxyz0123456789+/''"

definition sextet :: "nat \<Rightarrow> char" where
  "sextet n = encodeStd ! (n mod 64)"

fun EncodeToString :: "string \<Rightarrow> string" where
  "EncodeToString (a # b # c # rest) =
     (let n = of_char a * 65536 + of_char b * 256 + (of_char c :: nat)
      in sextet (n div 262144) # sextet (n div 4096) # sextet (n div 64) # sextet n
           # EncodeToString rest)"
| "EncodeToString [a, b] =
     (let n = of_char a * 65536 + of_char b * (256 :: nat)
      in [sextet (n div 262144), sextet (n div 4096), sextet (n div 64), CHR ''=''])"
| "EncodeToString [a] =
     (let n = of_char a * (65536 :: nat)
      in [sextet (n div 262144), sextet (n div 4096), CHR ''='', CHR ''=''])"
| "EncodeToString [] = []"

section \<open>The translation (config.go)\<close>

text \<open>
  Lines 73 to 89 of \<open>otelConfig\<close>: the headers of the exporter. Without \<open>basic_auth\<close>
  the header map stays nil. With it, the password is the inline one unless
  \<open>password_file\<close> is non-empty; then the file is read, and a failed read ends the
  translation.
\<close>

definition exporterHeaders ::
  "('a, 'b, 'q, 'h) world \<Rightarrow> ('b, 'q) RWConfig \<Rightarrow> ('a, 'b, 'q, 'h) call list
    \<Rightarrow> (error + (string \<times> string) list option) \<times> ('a, 'b, 'q, 'h) call list" where
  "exporterHeaders W rw tr =
     (case BasicAuth rw of
        None \<Rightarrow> (Inr None, tr)
      | Some ba \<Rightarrow>
          (let password = Password ba in
           case (if length (PasswordFile ba) > 0
                 then (case ReadFile W (PasswordFile ba) tr of
                         (Inl err, tr) \<Rightarrow>
                           (Inl (fmt_Errorf (''unable to load password file ''
                                   @ PasswordFile ba @ '' '') err), tr)
                       | (Inr buff, tr) \<Rightarrow> (Inr buff, tr))
                 else (Inr password, tr)) of
             (Inl err, tr) \<Rightarrow> (Inl err, tr)
           | (Inr password, tr) \<Rightarrow>
               (let encodedAuth = EncodeToString (Username ba @ '':'' @ password)
                in (Inr (Some [(''Authorization'', ''Basic '' @ encodedAuth)]), tr))))"

text \<open>
  Lines 58 and 91 to 126: the map handed to viper. An assignment \<open>m[k] = v\<close> is
  \<open>AList.update k v m\<close>; the \<open>range\<close> loop over the receivers appends each name.
\<close>

definition otelMapStructure ::
  "('a, 'b, 'q) Config \<Rightarrow> (string \<times> string) list option \<Rightarrow> ('a, 'b, 'q) val" where
  "otelMapStructure c headers =
     (let m = [];
          m = AList.update ''exporters''
                (Obj [(''otlp'', Obj [(''endpoint'', Str (URL (RemoteWrite c))),
                                      (''headers'', StrMap headers)])]) m;
          processors = [];
          processorNames = [];
          (processors, processorNames) =
            (case Batch (RemoteWrite c) of
               None \<Rightarrow> (processors, processorNames)
             | Some b \<Rightarrow> (AList.update ''batch'' (BatchSettings b) processors,
                          processorNames @ [''batch'']));
          (processors, processorNames) =
            (case Queue (RemoteWrite c) of
               None \<Rightarrow> (processors, processorNames)
             | Some q \<Rightarrow> (AList.update ''queue'' (QueueSettings q) processors,
                          processorNames @ [''queue'']));
          m = AList.update ''processors'' (Obj processors) m;
          m = AList.update ''receivers''
                (Obj (map (\<lambda>(name, s). (name, ReceiverSettings s)) (Receivers c))) m;
          receiverNames = foldl (\<lambda>names (name, s). names @ [name]) [] (Receivers c);
          m = AList.update ''pipelines''
                (Obj [(''traces'', Obj [(''exporters'', Strs [''otlp'']),
                                        (''processors'', Strs processorNames),
                                        (''receivers'', Strs receiverNames)])]) m
      in Obj m)"

text \<open>\<open>tracingFactories\<close>: the four factory maps, made in this order.\<close>

definition tracingFactories ::
  "('a, 'b, 'q, 'h) world \<Rightarrow> ('a, 'b, 'q, 'h) call list
    \<Rightarrow> (error + 'h Factories) \<times> ('a, 'b, 'q, 'h) call list" where
  "tracingFactories W tr =
     (case invoke W (component_MakeExtensionFactoryMap []) tr of
        (Inl err, tr) \<Rightarrow> (Inl err, tr)
      | (Inr extensions, tr) \<Rightarrow>
     (case invoke W (component_MakeReceiverFactoryMap
                       [jaegerreceiver, zipkinreceiver, otlpreceiver]) tr of
        (Inl err, tr) \<Rightarrow> (Inl err, tr)
      | (Inr receivers, tr) \<Rightarrow>
     (case invoke W (component_MakeExporterFactoryMap [otlpexporter]) tr of
        (Inl err, tr) \<Rightarrow> (Inl err, tr)
      | (Inr exporters, tr) \<Rightarrow>
     (case invoke W (component_MakeProcessorFactoryMap
                       [queuedprocessor, batchprocessor]) tr of
        (Inl err, tr) \<Rightarrow> (Inl err, tr)
      | (Inr processors, tr) \<Rightarrow>
          (Inr \<lparr>Extensions = extensions, FReceivers = receivers,
                Processors = processors, Exporters = exporters\<rparr>, tr)))))"

text \<open>\<open>otelConfig\<close>, in the order of the source.\<close>

definition otelConfig ::
  "('a, 'b, 'q, 'h) world \<Rightarrow> ('a, 'b, 'q) Config \<Rightarrow> ('a, 'b, 'q, 'h) call list
    \<Rightarrow> (error + 'h) \<times> ('a, 'b, 'q, 'h) call list" where
  "otelConfig W c tr =
     (if \<not> Enabled c then (Inl (errors_New ''tempo config not enabled''), tr)
      else if length (Receivers c) = 0
        then (Inl (errors_New ''must have at least one configured receiver''), tr)
      else if length (URL (RemoteWrite c)) = 0
        then (Inl (errors_New ''must have a configured remote_write.url''), tr)
      else
        (case exporterHeaders W (RemoteWrite c) tr of
           (Inl err, tr) \<Rightarrow> (Inl err, tr)
         | (Inr headers, tr) \<Rightarrow>
        (let m = otelMapStructure c headers in
         case invoke W (viper_MergeConfigMap m) tr of
           (Inl err, tr) \<Rightarrow>
             (Inl (fmt_Errorf ''failed to merge in mapstructure config '' err), tr)
         | (Inr _, tr) \<Rightarrow>
        (case tracingFactories W tr of
           (Inl err, tr) \<Rightarrow> (Inl (fmt_Errorf ''failed to create factories '' err), tr)
         | (Inr factories, tr) \<Rightarrow>
        (case invoke W (config_Load m factories) tr of
           (Inl err, tr) \<Rightarrow> (Inl (fmt_Errorf ''failed to load OTel config '' err), tr)
         | (Inr otelCfg, tr) \<Rightarrow> (Inr otelCfg, tr))))))"

section \<open>The supervisor (tempo.go)\<close>

text \<open>The struct \<open>Tempo\<close>; a field that was never assigned is \<open>None\<close>.\<close>

record 'h Tempo =
  logger :: "'h option"
  exporter :: "'h option"
  pipelines :: "'h option"
  receivers :: "'h option"

text \<open>
  \<open>Stop\<close> has no result in the source; here it returns the history of calls it leaves
  behind. \<open>t.logger.Error(msg, zap.Error(err))\<close> is the call \<open>Logger_Error\<close>.
\<close>

definition Stop ::
  "('a, 'b, 'q, 'h) world \<Rightarrow> 'h Tempo \<Rightarrow> ('a, 'b, 'q, 'h) call list
    \<Rightarrow> ('a, 'b, 'q, 'h) call list" where
  "Stop W t tr =
     (let (err, tr) = invoke W (Receivers_ShutdownAll (receivers t)) tr;
          tr = (case err of
                  Inl e \<Rightarrow> snd (invoke W (Logger_Error (logger t)
                                  ''failed to shutdown receiver'' e) tr)
                | Inr _ \<Rightarrow> tr);
          (err, tr) = invoke W (BuiltPipelines_ShutdownProcessors (pipelines t)) tr;
          tr = (case err of
                  Inl e \<Rightarrow> snd (invoke W (Logger_Error (logger t)
                                  ''failed to shutdown processors'' e) tr)
                | Inr _ \<Rightarrow> tr);
          (err, tr) = invoke W (Receivers_ShutdownAll (receivers t)) tr;
          tr = (case err of
                  Inl e \<Rightarrow> snd (invoke W (Logger_Error (logger t)
                                  ''failed to shutdown receivers'' e) tr)
                | Inr _ \<Rightarrow> tr)
      in tr)"

text \<open>
  \<open>buildAndStartPipeline\<close> returns its error (\<open>None\<close> is nil), the struct as the
  assignments leave it, and the history. A failed \<open>Build\<close> assigns the zero value.
\<close>

definition buildAndStartPipeline ::
  "('a, 'b, 'q, 'h) world \<Rightarrow> ('a, 'b, 'q) Config \<Rightarrow> 'h Tempo \<Rightarrow> ('a, 'b, 'q, 'h) call list
    \<Rightarrow> error option \<times> 'h Tempo \<times> ('a, 'b, 'q, 'h) call list" where
  "buildAndStartPipeline W cfg t tr =
     (case otelConfig W cfg tr of
        (Inl err, tr) \<Rightarrow>
          (Some (fmt_Errorf ''failed to load otelConfig from agent tempo config '' err), t, tr)
      | (Inr otelCfg, tr) \<Rightarrow>
     (case tracingFactories W tr of
        (Inl err, tr) \<Rightarrow> (Some (fmt_Errorf ''failed to load tracing factories '' err), t, tr)
      | (Inr factories, tr) \<Rightarrow>
     (case invoke W (ExportersBuilder_Build (logger t) otelCfg (Exporters factories)) tr of
        (Inl err, tr) \<Rightarrow>
          (Some (fmt_Errorf ''failed to build exporters '' err), t\<lparr>exporter := None\<rparr>, tr)
      | (Inr built, tr) \<Rightarrow>
     (let t = t\<lparr>exporter := Some built\<rparr> in
      case invoke W (Exporters_StartAll (exporter t)) tr of
        (Inl err, tr) \<Rightarrow> (Some (fmt_Errorf ''failed to start exporters '' err), t, tr)
      | (Inr _, tr) \<Rightarrow>
     (case invoke W (PipelinesBuilder_Build (logger t) otelCfg (exporter t)
                       (Processors factories)) tr of
        (Inl err, tr) \<Rightarrow>
          (Some (fmt_Errorf ''failed to build exporters '' err), t\<lparr>pipelines := None\<rparr>, tr)
      | (Inr built, tr) \<Rightarrow>
     (let t = t\<lparr>pipelines := Some built\<rparr> in
      case invoke W (BuiltPipelines_StartProcessors (pipelines t)) tr of
        (Inl err, tr) \<Rightarrow> (Some (fmt_Errorf ''failed to start processors '' err), t, tr)
      | (Inr _, tr) \<Rightarrow>
     (case invoke W (ReceiversBuilder_Build (logger t) otelCfg (pipelines t)
                       (FReceivers factories)) tr of
        (Inl err, tr) \<Rightarrow>
          (Some (fmt_Errorf ''failed to start receivers '' err), t\<lparr>receivers := None\<rparr>, tr)
      | (Inr built, tr) \<Rightarrow>
     (let t = t\<lparr>receivers := Some built\<rparr> in
      case invoke W (Receivers_StartAll (receivers t)) tr of
        (Inl err, tr) \<Rightarrow> (Some (fmt_Errorf ''failed to start receivers '' err), t, tr)
      | (Inr _, tr) \<Rightarrow> (None, t, tr)))))))))"

definition New ::
  "('a, 'b, 'q, 'h) world \<Rightarrow> ('a, 'b, 'q) Config \<Rightarrow> ('a, 'b, 'q, 'h) call list
    \<Rightarrow> (error + 'h Tempo) \<times> ('a, 'b, 'q, 'h) call list" where
  "New W cfg tr =
     (let tempo = \<lparr>logger = None, exporter = None, pipelines = None, receivers = None\<rparr> in
      case invoke W zap_NewProduction tr of
        (Inl err, tr) \<Rightarrow> (Inl (fmt_Errorf ''failed to create zap prod logger '' err), tr)
      | (Inr l, tr) \<Rightarrow>
     (let tempo = tempo\<lparr>logger := Some l\<rparr> in
      case buildAndStartPipeline W cfg tempo tr of
        (Some err, tempo, tr) \<Rightarrow> (Inl (fmt_Errorf ''failed to create exporter '' err), tr)
      | (None, tempo, tr) \<Rightarrow> (Inr tempo, tr)))"

section \<open>Observing a run\<close>

text \<open>Looking up a key, and a path of keys, in a nested map.\<close>

fun field :: "string \<Rightarrow> ('a, 'b, 'q) val \<Rightarrow> ('a, 'b, 'q) val option" where
  "field k (Obj kvs) = map_of kvs k"
| "field k _ = None"

fun at_path :: "string list \<Rightarrow> ('a, 'b, 'q) val \<Rightarrow> ('a, 'b, 'q) val option" where
  "at_path [] v = Some v"
| "at_path (k # ks) v = (case field k v of None \<Rightarrow> None | Some v' \<Rightarrow> at_path ks v')"

text \<open>The maps handed to viper in a history, oldest first.\<close>

fun merged :: "('a, 'b, 'q, 'h) call list \<Rightarrow> ('a, 'b, 'q) val list" where
  "merged [] = []"
| "merged (viper_MergeConfigMap g # cs) = g # merged cs"
| "merged (_ # cs) = merged cs"

text \<open>
  The translated graph of a run of \<open>otelConfig\<close>: the one map the run hands to viper,
  \<open>None\<close> when the run ends before it has built the map.
\<close>

definition otelGraph ::
  "('a, 'b, 'q, 'h) world \<Rightarrow> ('a, 'b, 'q) Config \<Rightarrow> ('a, 'b, 'q, 'h) call list
    \<Rightarrow> ('a, 'b, 'q) val option" where
  "otelGraph W c tr =
     (case drop (length (merged tr)) (merged (snd (otelConfig W c tr))) of
        [g] \<Rightarrow> Some g
      | _ \<Rightarrow> None)"

text \<open>
  The lifecycle steps of the collaborator, and the steps a history went through: the
  calls that build, start or shut down exporters, processors and receivers.
\<close>

datatype step =
    BuildExporters | StartExporters
  | BuildProcessors | StartProcessors
  | BuildReceivers | StartReceivers
  | ShutdownReceivers | ShutdownProcessors

fun step_of :: "('a, 'b, 'q, 'h) call \<Rightarrow> step option" where
  "step_of (ExportersBuilder_Build l c f) = Some BuildExporters"
| "step_of (Exporters_StartAll e) = Some StartExporters"
| "step_of (PipelinesBuilder_Build l c e f) = Some BuildProcessors"
| "step_of (BuiltPipelines_StartProcessors p) = Some StartProcessors"
| "step_of (ReceiversBuilder_Build l c p f) = Some BuildReceivers"
| "step_of (Receivers_StartAll r) = Some StartReceivers"
| "step_of (Receivers_ShutdownAll r) = Some ShutdownReceivers"
| "step_of (BuiltPipelines_ShutdownProcessors p) = Some ShutdownProcessors"
| "step_of _ = None"

fun steps :: "('a, 'b, 'q, 'h) call list \<Rightarrow> step list" where
  "steps [] = []"
| "steps (c # cs) = (case step_of c of None \<Rightarrow> steps cs | Some s \<Rightarrow> s # steps cs)"

text \<open>The order of a complete startup.\<close>

definition startup :: "step list" where
  "startup = [BuildExporters, StartExporters, BuildProcessors, StartProcessors,
              BuildReceivers, StartReceivers]"

text \<open>
  The source has no error types, only messages. The spec's names for them:
  \<open>ConfigInvalid\<close> is one of the three messages of the checks at the head of
  \<open>otelConfig\<close>, \<open>CredentialLoadError\<close> is the wrapped error of the password file.
\<close>

definition ConfigInvalid :: "error \<Rightarrow> bool" where
  "ConfigInvalid e \<longleftrightarrow>
     e = errors_New ''tempo config not enabled''
     \<or> e = errors_New ''must have at least one configured receiver''
     \<or> e = errors_New ''must have a configured remote_write.url''"

fun CredentialLoadError :: "error \<Rightarrow> bool" where
  "CredentialLoadError (fmt_Errorf p e) = (take 29 p = ''unable to load password file '')"
| "CredentialLoadError (errors_New m) = False"

section \<open>Example inputs\<close>

text \<open>A world with no readable file in which every other call succeeds.\<close>

definition quiet :: "(unit, unit, unit, nat) world" where
  "quiet = \<lparr>files = (\<lambda>path. Inl (errors_New ''no such file or directory'')),
            respond = (\<lambda>tr c. Inr 0)\<rparr>"

text \<open>The same world with one password file, which ends in a newline.\<close>

definition withSecret :: "(unit, unit, unit, nat) world" where
  "withSecret = quiet\<lparr>files := (\<lambda>path. if path = ''/etc/tempo/pw''
                                         then Inr (''secret'' @ [CHR 0x0A])
                                         else Inl (errors_New ''no such file or directory''))\<rparr>"

definition example :: "(unit, unit, unit) Config" where
  "example = \<lparr>Enabled = True,
     RemoteWrite = \<lparr>URL = ''tempo:55680'',
       BasicAuth = Some \<lparr>Username = ''u'', Password = ''p'', PasswordFile = []\<rparr>,
       Batch = Some (), Queue = Some ()\<rparr>,
     Receivers = [(''jaeger'', ()), (''zipkin'', ())]\<rparr>"

definition withPasswordFile :: "(unit, unit, unit) Config" where
  "withPasswordFile = example\<lparr>RemoteWrite := (RemoteWrite example)
     \<lparr>BasicAuth := Some \<lparr>Username = ''u'', Password = ''p'',
                          PasswordFile = ''/etc/tempo/pw''\<rparr>\<rparr>\<rparr>"

definition emptyCredentials :: "(unit, unit, unit) Config" where
  "emptyCredentials = example\<lparr>RemoteWrite := (RemoteWrite example)
     \<lparr>BasicAuth := Some \<lparr>Username = [], Password = [], PasswordFile = []\<rparr>\<rparr>\<rparr>"

definition disabled :: "(unit, unit, unit) Config" where
  "disabled = example\<lparr>Enabled := False\<rparr>"

definition disabledWithPasswordFile :: "(unit, unit, unit) Config" where
  "disabledWithPasswordFile = withPasswordFile\<lparr>Enabled := False\<rparr>"

text \<open>The example with its receivers visited in the other order.\<close>

definition reordered :: "(unit, unit, unit) Config" where
  "reordered = example\<lparr>Receivers := [(''zipkin'', ()), (''jaeger'', ())]\<rparr>"

text \<open>A world in which \<open>config.Load\<close> fails and every other call succeeds.\<close>

definition loadFails :: "(unit, unit, unit, nat) world" where
  "loadFails = quiet\<lparr>respond := (\<lambda>tr c. case c of
       config_Load m f \<Rightarrow> Inl (errors_New ''unknown receivers type'')
     | _ \<Rightarrow> Inr 0)\<rparr>"

text \<open>A world in which exactly the calls of one step fail.\<close>

definition failing :: "step \<Rightarrow> (unit, unit, unit, nat) world" where
  "failing s = quiet\<lparr>respond := (\<lambda>tr c. if step_of c = Some s
                                          then Inl (errors_New ''boom'') else Inr 0)\<rparr>"

text \<open>The struct as \<open>New\<close> hands it to \<open>buildAndStartPipeline\<close>, and a started one.\<close>

definition fresh :: "nat Tempo" where
  "fresh = \<lparr>logger = Some 0, exporter = None, pipelines = None, receivers = None\<rparr>"

definition running :: "nat Tempo" where
  "running = \<lparr>logger = Some 0, exporter = Some 1, pipelines = Some 2, receivers = Some 3\<rparr>"

section \<open>Facts about the translation\<close>

lemma merged_append: "merged (xs @ ys) = merged xs @ merged ys"
  by (induction xs rule: merged.induct) simp_all

text \<open>The \<open>range\<close> loop collects the keys in the order of the visit.\<close>

lemma receiverNames_loop:
  "foldl (\<lambda>names (name, s). names @ [name]) acc xs = acc @ map fst xs"
  by (induction xs arbitrary: acc) auto

lemma tracingFactories_merged: "merged (snd (tracingFactories W tr)) = merged tr"
  by (simp add: tracingFactories_def invoke_def merged_append split: prod.splits sum.splits)

lemma exporterHeaders_merged: "merged (snd (exporterHeaders W rw tr)) = merged tr"
  by (simp add: exporterHeaders_def ReadFile_def merged_append Let_def
      split: option.splits prod.splits sum.splits)

lemma otelConfig_merged:
  assumes "Enabled c" "Receivers c \<noteq> []" "URL (RemoteWrite c) \<noteq> []"
    and "fst (exporterHeaders W (RemoteWrite c) tr) = Inr h"
  shows "merged (snd (otelConfig W c tr)) = merged tr @ [otelMapStructure c h]"
proof -
  obtain tr1 where h: "exporterHeaders W (RemoteWrite c) tr = (Inr h, tr1)"
    using assms(4) by (cases "exporterHeaders W (RemoteWrite c) tr") simp
  have m: "merged tr1 = merged tr"
    using exporterHeaders_merged [of W "RemoteWrite c" tr] h by simp
  show ?thesis
    using assms(1-3) h m
      tracingFactories_merged [of W "tr1 @ [viper_MergeConfigMap (otelMapStructure c h)]"]
    by (auto simp: otelConfig_def invoke_def merged_append Let_def
        split: prod.splits sum.splits)
qed

lemma otelConfig_merged_early:
  assumes "\<not> Enabled c \<or> Receivers c = [] \<or> URL (RemoteWrite c) = []
     \<or> fst (exporterHeaders W (RemoteWrite c) tr) = Inl e"
  shows "merged (snd (otelConfig W c tr)) = merged tr"
  using assms exporterHeaders_merged [of W "RemoteWrite c" tr]
  by (auto simp: otelConfig_def split: prod.splits sum.splits)

text \<open>The graph of a run, in closed form.\<close>

lemma otelGraph_eq:
  "otelGraph W c tr =
     (if Enabled c \<and> Receivers c \<noteq> [] \<and> URL (RemoteWrite c) \<noteq> []
      then (case fst (exporterHeaders W (RemoteWrite c) tr) of
              Inl e \<Rightarrow> None
            | Inr h \<Rightarrow> Some (otelMapStructure c h))
      else None)"
proof (cases "Enabled c \<and> Receivers c \<noteq> [] \<and> URL (RemoteWrite c) \<noteq> []")
  case False
  then have "merged (snd (otelConfig W c tr)) = merged tr"
    using otelConfig_merged_early [of c W tr] by blast
  with False show ?thesis by (auto simp: otelGraph_def)
next
  case True
  show ?thesis
  proof (cases "fst (exporterHeaders W (RemoteWrite c) tr)")
    case (Inl e)
    then have "merged (snd (otelConfig W c tr)) = merged tr"
      using otelConfig_merged_early [of c W tr e] by blast
    with True Inl show ?thesis by (simp add: otelGraph_def)
  next
    case (Inr h)
    then have "merged (snd (otelConfig W c tr)) = merged tr @ [otelMapStructure c h]"
      using True otelConfig_merged by blast
    with True Inr show ?thesis by (simp add: otelGraph_def)
  qed
qed

lemma otelConfig_Inr:
  assumes "fst (otelConfig W c tr) = Inr cfg"
  shows "Enabled c \<and> Receivers c \<noteq> [] \<and> URL (RemoteWrite c) \<noteq> []
    \<and> (\<exists>h. fst (exporterHeaders W (RemoteWrite c) tr) = Inr h)"
  using assms
  by (auto simp: otelConfig_def Let_def split: if_splits prod.splits sum.splits)

lemma field_exporters:
  "field ''exporters'' (otelMapStructure c h) =
     Some (Obj [(''otlp'', Obj [(''endpoint'', Str (URL (RemoteWrite c))),
                                (''headers'', StrMap h)])])"
  by (simp add: otelMapStructure_def split: option.splits)

lemma path_headers:
  "at_path [''exporters'', ''otlp'', ''headers''] (otelMapStructure c h) = Some (StrMap h)"
  by (simp add: field_exporters)

lemma path_pipeline_exporters:
  "at_path [''pipelines'', ''traces'', ''exporters''] (otelMapStructure c h)
     = Some (Strs [''otlp''])"
  by (simp add: otelMapStructure_def split: option.splits)

lemma path_pipeline_receivers:
  "at_path [''pipelines'', ''traces'', ''receivers''] (otelMapStructure c h)
     = Some (Strs (map fst (Receivers c)))"
  by (simp add: otelMapStructure_def receiverNames_loop split: option.splits)

lemma path_pipeline_processors:
  "at_path [''pipelines'', ''traces'', ''processors''] (otelMapStructure c h) =
     Some (Strs ((case Batch (RemoteWrite c) of None \<Rightarrow> [] | Some b \<Rightarrow> [''batch''])
                 @ (case Queue (RemoteWrite c) of None \<Rightarrow> [] | Some q \<Rightarrow> [''queue''])))"
  by (simp add: otelMapStructure_def split: option.splits)

lemma field_processors:
  "field ''processors'' (otelMapStructure c h) =
     Some (Obj ((case Batch (RemoteWrite c) of
                   None \<Rightarrow> [] | Some b \<Rightarrow> [(''batch'', BatchSettings b)])
                @ (case Queue (RemoteWrite c) of
                     None \<Rightarrow> [] | Some q \<Rightarrow> [(''queue'', QueueSettings q)])))"
  by (simp add: otelMapStructure_def split: option.splits)

lemma exporterHeaders_None:
  "BasicAuth rw = None \<Longrightarrow> exporterHeaders W rw tr = (Inr None, tr)"
  by (simp add: exporterHeaders_def)

lemma exporterHeaders_inline:
  "BasicAuth rw = Some ba \<Longrightarrow> PasswordFile ba = [] \<Longrightarrow>
   exporterHeaders W rw tr =
     (Inr (Some [(''Authorization'',
                  ''Basic '' @ EncodeToString (Username ba @ '':'' @ Password ba))]), tr)"
  by (simp add: exporterHeaders_def)

lemma exporterHeaders_file:
  "BasicAuth rw = Some ba \<Longrightarrow> PasswordFile ba \<noteq> [] \<Longrightarrow>
   files W (PasswordFile ba) = Inr buff \<Longrightarrow>
   exporterHeaders W rw tr =
     (Inr (Some [(''Authorization'',
                  ''Basic '' @ EncodeToString (Username ba @ '':'' @ buff))]),
      tr @ [ioutil_ReadFile (PasswordFile ba)])"
  by (simp add: exporterHeaders_def ReadFile_def)

lemma exporterHeaders_unreadable:
  "BasicAuth rw = Some ba \<Longrightarrow> PasswordFile ba \<noteq> [] \<Longrightarrow>
   files W (PasswordFile ba) = Inl err \<Longrightarrow>
   exporterHeaders W rw tr =
     (Inl (fmt_Errorf (''unable to load password file '' @ PasswordFile ba @ '' '') err),
      tr @ [ioutil_ReadFile (PasswordFile ba)])"
  by (simp add: exporterHeaders_def ReadFile_def)

lemma otelGraph_Some:
  assumes "otelGraph W c tr = Some g"
  shows "\<exists>h. g = otelMapStructure c h \<and> fst (exporterHeaders W (RemoteWrite c) tr) = Inr h
     \<and> Enabled c \<and> Receivers c \<noteq> [] \<and> URL (RemoteWrite c) \<noteq> []"
  using assms by (auto simp: otelGraph_eq split: if_splits sum.splits)

lemma otelGraph_example:
  "otelGraph quiet example [] =
     Some (otelMapStructure example (Some [(''Authorization'', ''Basic dTpw'')]))"
  by (simp add: otelGraph_eq exporterHeaders_def example_def sextet_def encodeStd_def)

text \<open>Evaluating the examples.\<close>

lemmas run_defs =
  otelConfig_def exporterHeaders_def tracingFactories_def invoke_def ReadFile_def Let_def

lemmas example_defs =
  quiet_def withSecret_def example_def withPasswordFile_def emptyCredentials_def
  disabled_def disabledWithPasswordFile_def reordered_def

section \<open>The claims about the translation\<close>

text \<open>
  C1. Whenever \<open>otelConfig\<close> succeeds, the graph it built has an \<open>exporters\<close> section
  with exactly one entry, named \<open>otlp\<close>, whose endpoint is \<open>remote_write.url\<close>; the
  exporter list of \<open>pipelines.traces\<close> is exactly \<open>["otlp"]\<close>; and the header map of the
  entry holds an \<open>Authorization\<close> header (and nothing else) if \<open>basic_auth\<close> is
  configured, and is the nil map otherwise.
\<close>

theorem exporter_otlp:
  assumes "fst (otelConfig W c tr) = Inr cfg"
  shows "\<exists>g h. otelGraph W c tr = Some g
     \<and> field ''exporters'' g =
         Some (Obj [(''otlp'', Obj [(''endpoint'', Str (URL (RemoteWrite c))),
                                    (''headers'', StrMap h)])])
     \<and> at_path [''pipelines'', ''traces'', ''exporters''] g = Some (Strs [''otlp''])
     \<and> ((\<exists>v. h = Some [(''Authorization'', v)]) \<longleftrightarrow> BasicAuth (RemoteWrite c) \<noteq> None)
     \<and> (h = None \<longleftrightarrow> BasicAuth (RemoteWrite c) = None)"
proof -
  from otelConfig_Inr [OF assms] obtain h where
    v: "Enabled c" "Receivers c \<noteq> []" "URL (RemoteWrite c) \<noteq> []"
    and h: "fst (exporterHeaders W (RemoteWrite c) tr) = Inr h" by blast
  have g: "otelGraph W c tr = Some (otelMapStructure c h)"
    using v h by (simp add: otelGraph_eq)
  have a: "(\<exists>v. h = Some [(''Authorization'', v)]) \<longleftrightarrow> BasicAuth (RemoteWrite c) \<noteq> None"
    using h
    by (auto simp: exporterHeaders_def ReadFile_def Let_def
        split: option.splits sum.splits if_splits)
  have b: "h = None \<longleftrightarrow> BasicAuth (RemoteWrite c) = None"
    using h
    by (auto simp: exporterHeaders_def ReadFile_def Let_def
        split: option.splits sum.splits if_splits)
  show ?thesis
    apply (rule exI [of _ "otelMapStructure c h"])
    apply (rule exI [of _ h])
    apply (simp only: g a b field_exporters path_pipeline_exporters)
    done
qed

theorem exporter_otlp_witness:
  "fst (otelConfig quiet example []) = Inr 0
   \<and> (\<exists>g h. otelGraph quiet example [] = Some g
     \<and> field ''exporters'' g =
         Some (Obj [(''otlp'', Obj [(''endpoint'', Str ''tempo:55680''),
                                    (''headers'', StrMap h)])])
     \<and> at_path [''pipelines'', ''traces'', ''exporters''] g = Some (Strs [''otlp''])
     \<and> (\<exists>v. h = Some [(''Authorization'', v)]) \<and> h \<noteq> None)"
proof -
  have r: "fst (otelConfig quiet example []) = Inr 0"
    by (simp add: run_defs example_defs)
  have u: "URL (RemoteWrite example) = ''tempo:55680''"
    "BasicAuth (RemoteWrite example)
       = Some \<lparr>Username = ''u'', Password = ''p'', PasswordFile = []\<rparr>"
    by (simp_all add: example_def)
  show ?thesis
    using exporter_otlp [OF r] by (simp add: r u)
qed

text \<open>
  C2. With \<open>basic_auth\<close> configured and no \<open>password_file\<close>, the header synthesized in
  the graph is \<open>Authorization\<close> with the value \<open>Basic\<close>, a space, and the standard
  base64 encoding of username, a colon and password. For \<open>u\<close> and \<open>p\<close> (the witness)
  it is \<open>Basic dTpw\<close>.
\<close>

theorem basic_auth_header:
  assumes "BasicAuth (RemoteWrite c) = Some ba" and "PasswordFile ba = []"
    and "otelGraph W c tr = Some g"
  shows "at_path [''exporters'', ''otlp'', ''headers''] g =
     Some (StrMap (Some [(''Authorization'',
        ''Basic '' @ EncodeToString (Username ba @ '':'' @ Password ba))]))"
proof -
  have "fst (exporterHeaders W (RemoteWrite c) tr) =
     Inr (Some [(''Authorization'',
        ''Basic '' @ EncodeToString (Username ba @ '':'' @ Password ba))])"
    using assms(1,2) by (simp add: exporterHeaders_inline)
  then have "g = otelMapStructure c (Some [(''Authorization'',
        ''Basic '' @ EncodeToString (Username ba @ '':'' @ Password ba))])"
    using assms(3) by (simp add: otelGraph_eq split: if_splits)
  then show ?thesis by (simp only: path_headers)
qed

theorem basic_auth_header_witness:
  "BasicAuth (RemoteWrite example)
     = Some \<lparr>Username = ''u'', Password = ''p'', PasswordFile = []\<rparr>
   \<and> otelGraph quiet example []
     = Some (otelMapStructure example (Some [(''Authorization'', ''Basic dTpw'')]))
   \<and> at_path [''exporters'', ''otlp'', ''headers'']
       (otelMapStructure example (Some [(''Authorization'', ''Basic dTpw'')]))
     = Some (StrMap (Some [(''Authorization'', ''Basic dTpw'')]))"
proof -
  have b: "BasicAuth (RemoteWrite example)
     = Some \<lparr>Username = ''u'', Password = ''p'', PasswordFile = []\<rparr>"
    by (simp add: example_def)
  have g: "otelGraph quiet example []
     = Some (otelMapStructure example (Some [(''Authorization'', ''Basic dTpw'')]))"
    by (rule otelGraph_example)
  show ?thesis
    using basic_auth_header [OF b _ g] by (simp add: b g sextet_def encodeStd_def)
qed

text \<open>
  C3. In every graph the translation builds, the processor list of \<open>pipelines.traces\<close>
  is \<open>["batch", "queue"]\<close> when both settings are present, \<open>["batch"]\<close> or \<open>["queue"]\<close>
  when only that one is, and empty when neither is; the \<open>processors\<close> section has an
  entry for exactly the processors that are present.
\<close>

theorem processor_names:
  assumes "otelGraph W c tr = Some g"
  shows "at_path [''pipelines'', ''traces'', ''processors''] g =
       Some (Strs (case (Batch (RemoteWrite c), Queue (RemoteWrite c)) of
                     (Some b, Some q) \<Rightarrow> [''batch'', ''queue'']
                   | (Some b, None) \<Rightarrow> [''batch'']
                   | (None, Some q) \<Rightarrow> [''queue'']
                   | (None, None) \<Rightarrow> []))
     \<and> field ''processors'' g =
       Some (Obj (case (Batch (RemoteWrite c), Queue (RemoteWrite c)) of
                    (Some b, Some q) \<Rightarrow>
                      [(''batch'', BatchSettings b), (''queue'', QueueSettings q)]
                  | (Some b, None) \<Rightarrow> [(''batch'', BatchSettings b)]
                  | (None, Some q) \<Rightarrow> [(''queue'', QueueSettings q)]
                  | (None, None) \<Rightarrow> []))"
proof -
  from otelGraph_Some [OF assms] obtain h where g: "g = otelMapStructure c h" by blast
  show ?thesis
    unfolding g path_pipeline_processors field_processors
    by (simp split: option.splits)
qed

theorem processor_names_witness:
  "otelGraph quiet example []
     = Some (otelMapStructure example (Some [(''Authorization'', ''Basic dTpw'')]))
   \<and> at_path [''pipelines'', ''traces'', ''processors'']
       (otelMapStructure example (Some [(''Authorization'', ''Basic dTpw'')]))
     = Some (Strs [''batch'', ''queue''])
   \<and> field ''processors''
       (otelMapStructure example (Some [(''Authorization'', ''Basic dTpw'')]))
     = Some (Obj [(''batch'', BatchSettings ()), (''queue'', QueueSettings ())])"
proof -
  have g: "otelGraph quiet example []
     = Some (otelMapStructure example (Some [(''Authorization'', ''Basic dTpw'')]))"
    by (rule otelGraph_example)
  have b: "Batch (RemoteWrite example) = Some ()" "Queue (RemoteWrite example) = Some ()"
    by (simp_all add: example_def)
  show ?thesis
    using processor_names [OF g] by (simp add: g b)
qed

text \<open>
  C4. \<open>otelConfig\<close> fails with one of the three \<open>ConfigInvalid\<close> errors exactly when the
  configuration is disabled, has no receiver, or has an empty \<open>remote_write.url\<close>; and
  in these cases it returns without having made any call: no file read, no merge, no
  factory map, no load.
\<close>

theorem config_invalid:
  "((\<exists>e. fst (otelConfig W c tr) = Inl e \<and> ConfigInvalid e)
      \<longleftrightarrow> (\<not> Enabled c \<or> Receivers c = [] \<or> URL (RemoteWrite c) = []))
   \<and> (\<not> Enabled c \<or> Receivers c = [] \<or> URL (RemoteWrite c) = []
        \<longrightarrow> snd (otelConfig W c tr) = tr)"
proof -
  have 1: "\<not> Enabled c \<Longrightarrow>
     otelConfig W c tr = (Inl (errors_New ''tempo config not enabled''), tr)"
    by (simp add: otelConfig_def)
  have 2: "Enabled c \<Longrightarrow> Receivers c = [] \<Longrightarrow>
     otelConfig W c tr = (Inl (errors_New ''must have at least one configured receiver''), tr)"
    by (simp add: otelConfig_def)
  have 3: "Enabled c \<Longrightarrow> Receivers c \<noteq> [] \<Longrightarrow> URL (RemoteWrite c) = [] \<Longrightarrow>
     otelConfig W c tr = (Inl (errors_New ''must have a configured remote_write.url''), tr)"
    by (simp add: otelConfig_def)
  have 4: "Enabled c \<Longrightarrow> Receivers c \<noteq> [] \<Longrightarrow> URL (RemoteWrite c) \<noteq> [] \<Longrightarrow>
     fst (otelConfig W c tr) = Inl e \<Longrightarrow> \<exists>p e'. e = fmt_Errorf p e'" for e
    by (auto simp: otelConfig_def exporterHeaders_def Let_def
        split: prod.splits sum.splits option.splits if_splits)
  have c1: "ConfigInvalid (errors_New ''tempo config not enabled'')"
    and c2: "ConfigInvalid (errors_New ''must have at least one configured receiver'')"
    and c3: "ConfigInvalid (errors_New ''must have a configured remote_write.url'')"
    by (simp_all add: ConfigInvalid_def)
  have c4: "\<not> ConfigInvalid (fmt_Errorf p e')" for p e'
    by (simp add: ConfigInvalid_def)
  show ?thesis
    using 1 2 3 4 c1 c2 c3 c4 by (metis fst_conv snd_conv)
qed

theorem config_invalid_witness:
  "\<not> Enabled disabled
   \<and> fst (otelConfig quiet disabled [zap_NewProduction])
       = Inl (errors_New ''tempo config not enabled'')
   \<and> (\<exists>e. fst (otelConfig quiet disabled [zap_NewProduction]) = Inl e \<and> ConfigInvalid e)
   \<and> snd (otelConfig quiet disabled [zap_NewProduction]) = [zap_NewProduction]"
proof -
  have d: "\<not> Enabled disabled" by (simp add: disabled_def example_def)
  have r: "fst (otelConfig quiet disabled [zap_NewProduction])
       = Inl (errors_New ''tempo config not enabled'')"
    using d by (simp add: otelConfig_def)
  show ?thesis
    using config_invalid [of quiet disabled "[zap_NewProduction]"] d r by simp
qed

text \<open>
  C5. As stated, for every configuration, the claim fails: the three checks at the head
  of \<open>otelConfig\<close> come first, so a disabled configuration whose password file cannot
  be read fails with \<open>tempo config not enabled\<close>, which is not a
  \<open>CredentialLoadError\<close>.
\<close>

theorem password_file_unreadable_counterexample:
  "BasicAuth (RemoteWrite disabledWithPasswordFile)
     = Some \<lparr>Username = ''u'', Password = ''p'', PasswordFile = ''/etc/tempo/pw''\<rparr>
   \<and> files quiet ''/etc/tempo/pw'' = Inl (errors_New ''no such file or directory'')
   \<and> otelConfig quiet disabledWithPasswordFile []
       = (Inl (errors_New ''tempo config not enabled''), [])
   \<and> \<not> CredentialLoadError (errors_New ''tempo config not enabled'')"
  by (simp add: otelConfig_def example_defs)

text \<open>
  C5, amended. For every configuration that passes the three checks (enabled, at least
  one receiver, non-empty url) and whose \<open>password_file\<close> cannot be read, the
  translation fails with the \<open>CredentialLoadError\<close> that wraps the read error, after
  the one file read and before any other call, and builds no graph.
\<close>

theorem password_file_unreadable:
  assumes "Enabled c" and "Receivers c \<noteq> []" and "URL (RemoteWrite c) \<noteq> []"
    and "BasicAuth (RemoteWrite c) = Some ba" and "PasswordFile ba \<noteq> []"
    and "files W (PasswordFile ba) = Inl err"
  shows "otelConfig W c tr =
       (Inl (fmt_Errorf (''unable to load password file '' @ PasswordFile ba @ '' '') err),
        tr @ [ioutil_ReadFile (PasswordFile ba)])
     \<and> CredentialLoadError
         (fmt_Errorf (''unable to load password file '' @ PasswordFile ba @ '' '') err)
     \<and> otelGraph W c tr = None"
proof -
  have h: "exporterHeaders W (RemoteWrite c) tr =
       (Inl (fmt_Errorf (''unable to load password file '' @ PasswordFile ba @ '' '') err),
        tr @ [ioutil_ReadFile (PasswordFile ba)])"
    using assms(4-6) by (rule exporterHeaders_unreadable)
  have 1: "otelConfig W c tr =
       (Inl (fmt_Errorf (''unable to load password file '' @ PasswordFile ba @ '' '') err),
        tr @ [ioutil_ReadFile (PasswordFile ba)])"
    using assms(1-3) h by (simp add: otelConfig_def)
  have 2: "CredentialLoadError
         (fmt_Errorf (''unable to load password file '' @ PasswordFile ba @ '' '') err)"
    by simp
  have 3: "otelGraph W c tr = None"
    using h by (simp add: otelGraph_eq)
  show ?thesis using 1 2 3 by (intro conjI)
qed

theorem password_file_unreadable_witness:
  "Enabled withPasswordFile \<and> Receivers withPasswordFile \<noteq> []
   \<and> URL (RemoteWrite withPasswordFile) \<noteq> []
   \<and> BasicAuth (RemoteWrite withPasswordFile)
       = Some \<lparr>Username = ''u'', Password = ''p'', PasswordFile = ''/etc/tempo/pw''\<rparr>
   \<and> files quiet ''/etc/tempo/pw'' = Inl (errors_New ''no such file or directory'')
   \<and> otelConfig quiet withPasswordFile [] =
       (Inl (fmt_Errorf ''unable to load password file /etc/tempo/pw ''
               (errors_New ''no such file or directory'')),
        [ioutil_ReadFile ''/etc/tempo/pw''])
   \<and> otelGraph quiet withPasswordFile [] = None"
proof -
  have a: "Enabled withPasswordFile" "Receivers withPasswordFile \<noteq> []"
    "URL (RemoteWrite withPasswordFile) \<noteq> []"
    by (simp_all add: example_defs)
  have b: "BasicAuth (RemoteWrite withPasswordFile)
       = Some \<lparr>Username = ''u'', Password = ''p'', PasswordFile = ''/etc/tempo/pw''\<rparr>"
    by (simp add: example_defs)
  have p: "PasswordFile \<lparr>Username = ''u'', Password = ''p'', PasswordFile = ''/etc/tempo/pw''\<rparr> \<noteq> []"
    by simp
  have f: "files quiet (PasswordFile \<lparr>Username = ''u'', Password = ''p'',
              PasswordFile = ''/etc/tempo/pw''\<rparr>) = Inl (errors_New ''no such file or directory'')"
    by (simp add: quiet_def)
  show ?thesis
    using password_file_unreadable [OF a b p f, of "[]"] a b f by simp
qed

text \<open>
  C6. Whenever \<open>otelConfig\<close> succeeds, the receiver list of \<open>pipelines.traces\<close> has
  exactly the keys of the receivers map as its elements, one element per entry, and no
  repetition when the keys are distinct (as the keys of a Go map are), whatever the
  order of the visit. The witness runs the same two receivers in both orders.
\<close>

theorem receiver_names:
  assumes "fst (otelConfig W c tr) = Inr cfg"
  shows "\<exists>g names. otelGraph W c tr = Some g
     \<and> at_path [''pipelines'', ''traces'', ''receivers''] g = Some (Strs names)
     \<and> set names = dom (map_of (Receivers c))
     \<and> length names = length (Receivers c)
     \<and> (distinct (map fst (Receivers c)) \<longrightarrow> distinct names)"
proof -
  from otelConfig_Inr [OF assms] obtain h where
    v: "Enabled c" "Receivers c \<noteq> []" "URL (RemoteWrite c) \<noteq> []"
    and h: "fst (exporterHeaders W (RemoteWrite c) tr) = Inr h" by blast
  have g: "otelGraph W c tr = Some (otelMapStructure c h)"
    using v h by (simp add: otelGraph_eq)
  have s: "set (map fst (Receivers c)) = dom (map_of (Receivers c))"
    by (simp add: dom_map_of_conv_image_fst)
  show ?thesis
    apply (rule exI [of _ "otelMapStructure c h"])
    apply (rule exI [of _ "map fst (Receivers c)"])
    apply (simp only: g path_pipeline_receivers s length_map)
    apply simp
    done
qed

theorem receiver_names_witness:
  "fst (otelConfig quiet example []) = Inr 0
   \<and> Receivers example = [(''jaeger'', ()), (''zipkin'', ())]
   \<and> (\<exists>g names. otelGraph quiet example [] = Some g
     \<and> at_path [''pipelines'', ''traces'', ''receivers''] g = Some (Strs names)
     \<and> set names = {''jaeger'', ''zipkin''}
     \<and> length names = 2
     \<and> distinct names)
   \<and> fst (otelConfig quiet reordered []) = Inr 0
   \<and> Receivers reordered = [(''zipkin'', ()), (''jaeger'', ())]
   \<and> (\<exists>g names. otelGraph quiet reordered [] = Some g
     \<and> at_path [''pipelines'', ''traces'', ''receivers''] g = Some (Strs names)
     \<and> set names = {''jaeger'', ''zipkin''}
     \<and> length names = 2
     \<and> distinct names)"
proof -
  have r: "fst (otelConfig quiet example []) = Inr 0"
    by (simp add: run_defs example_defs)
  have u: "Receivers example = [(''jaeger'', ()), (''zipkin'', ())]"
    by (simp add: example_def)
  have d: "dom (map_of (Receivers example)) = {''jaeger'', ''zipkin''}"
    "distinct (map fst (Receivers example))" "length (Receivers example) = 2"
    unfolding u by (simp_all add: insert_commute)
  have r': "fst (otelConfig quiet reordered []) = Inr 0"
    by (simp add: run_defs example_defs)
  have u': "Receivers reordered = [(''zipkin'', ()), (''jaeger'', ())]"
    by (simp add: reordered_def)
  have d': "dom (map_of (Receivers reordered)) = {''jaeger'', ''zipkin''}"
    "distinct (map fst (Receivers reordered))" "length (Receivers reordered) = 2"
    unfolding u' by (simp_all add: insert_commute)
  have A: "\<exists>g names. otelGraph quiet example [] = Some g
     \<and> at_path [''pipelines'', ''traces'', ''receivers''] g = Some (Strs names)
     \<and> set names = {''jaeger'', ''zipkin''}
     \<and> length names = 2
     \<and> distinct names"
    using receiver_names [OF r] by (simp add: d numeral_2_eq_2)
  have B: "\<exists>g names. otelGraph quiet reordered [] = Some g
     \<and> at_path [''pipelines'', ''traces'', ''receivers''] g = Some (Strs names)
     \<and> set names = {''jaeger'', ''zipkin''}
     \<and> length names = 2
     \<and> distinct names"
    using receiver_names [OF r'] by (simp add: d' numeral_2_eq_2)
  show ?thesis
    using r u A r' u' B by (intro conjI)
qed

text \<open>
  C9. With a non-empty \<open>password_file\<close> that can be read, the header in the graph is
  built from the username and the whole content of the file, unchanged; the inline
  password plays no part. In the witness the file ends in a newline, which is encoded
  with the rest (\<open>dTpzZWNyZXQK\<close>, not \<open>dTpzZWNyZXQ=\<close>), and the inline
  password \<open>p\<close> is not used (\<open>dTpw\<close>).
\<close>

theorem password_file_verbatim:
  assumes "BasicAuth (RemoteWrite c) = Some ba" and "PasswordFile ba \<noteq> []"
    and "files W (PasswordFile ba) = Inr content"
    and "otelGraph W c tr = Some g"
  shows "at_path [''exporters'', ''otlp'', ''headers''] g =
     Some (StrMap (Some [(''Authorization'',
        ''Basic '' @ EncodeToString (Username ba @ '':'' @ content))]))"
proof -
  have "fst (exporterHeaders W (RemoteWrite c) tr) =
     Inr (Some [(''Authorization'',
        ''Basic '' @ EncodeToString (Username ba @ '':'' @ content))])"
    using assms(1-3) by (simp add: exporterHeaders_file)
  then have "g = otelMapStructure c (Some [(''Authorization'',
        ''Basic '' @ EncodeToString (Username ba @ '':'' @ content))])"
    using assms(4) by (simp add: otelGraph_eq split: if_splits)
  then show ?thesis by (simp only: path_headers)
qed

lemma otelGraph_withSecret:
  "otelGraph withSecret withPasswordFile [] =
     Some (otelMapStructure withPasswordFile (Some [(''Authorization'', ''Basic dTpzZWNyZXQK'')]))"
  by (simp add: otelGraph_eq exporterHeaders_def ReadFile_def example_defs sextet_def encodeStd_def)

theorem password_file_verbatim_witness:
  "BasicAuth (RemoteWrite withPasswordFile)
     = Some \<lparr>Username = ''u'', Password = ''p'', PasswordFile = ''/etc/tempo/pw''\<rparr>
   \<and> files withSecret ''/etc/tempo/pw'' = Inr (''secret'' @ [CHR 0x0A])
   \<and> otelGraph withSecret withPasswordFile []
     = Some (otelMapStructure withPasswordFile
               (Some [(''Authorization'', ''Basic dTpzZWNyZXQK'')]))
   \<and> at_path [''exporters'', ''otlp'', ''headers'']
       (otelMapStructure withPasswordFile (Some [(''Authorization'', ''Basic dTpzZWNyZXQK'')]))
     = Some (StrMap (Some [(''Authorization'',
         ''Basic '' @ EncodeToString (''u:secret'' @ [CHR 0x0A]))]))
   \<and> EncodeToString (''u:secret'' @ [CHR 0x0A]) = ''dTpzZWNyZXQK''
   \<and> EncodeToString ''u:secret'' = ''dTpzZWNyZXQ=''
   \<and> EncodeToString ''u:p'' = ''dTpw''"
proof -
  have b: "BasicAuth (RemoteWrite withPasswordFile)
     = Some \<lparr>Username = ''u'', Password = ''p'', PasswordFile = ''/etc/tempo/pw''\<rparr>"
    by (simp add: example_defs)
  have p: "PasswordFile \<lparr>Username = ''u'', Password = ''p'',
             PasswordFile = ''/etc/tempo/pw''\<rparr> \<noteq> []"
    by simp
  have f: "files withSecret (PasswordFile \<lparr>Username = ''u'', Password = ''p'',
             PasswordFile = ''/etc/tempo/pw''\<rparr>) = Inr (''secret'' @ [CHR 0x0A])"
    by (simp add: example_defs)
  have g: "otelGraph withSecret withPasswordFile []
     = Some (otelMapStructure withPasswordFile
               (Some [(''Authorization'', ''Basic dTpzZWNyZXQK'')]))"
    by (rule otelGraph_withSecret)
  show ?thesis
    using password_file_verbatim [OF b p f g] f
    by (simp add: b g sextet_def encodeStd_def)
qed

text \<open>
  C10. With \<open>basic_auth\<close> present and username, password and \<open>password_file\<close> all
  empty, the credentials step never fails and reads no file: it yields the header
  \<open>Basic Og==\<close>. A configuration that passes the three checks gets a graph with that
  header, and whatever error the translation returns is not a credentials error.
\<close>

theorem empty_credentials:
  assumes "BasicAuth (RemoteWrite c) = Some ba"
    and "Username ba = []" and "Password ba = []" and "PasswordFile ba = []"
  shows "exporterHeaders W (RemoteWrite c) tr
       = (Inr (Some [(''Authorization'', ''Basic Og=='')]), tr)
     \<and> (Enabled c \<and> Receivers c \<noteq> [] \<and> URL (RemoteWrite c) \<noteq> [] \<longrightarrow>
          (\<exists>g. otelGraph W c tr = Some g
             \<and> at_path [''exporters'', ''otlp'', ''headers''] g
                 = Some (StrMap (Some [(''Authorization'', ''Basic Og=='')]))))
     \<and> (\<forall>e. fst (otelConfig W c tr) = Inl e \<longrightarrow> \<not> CredentialLoadError e)"
proof -
  have e: "EncodeToString '':'' = ''Og==''"
    by (simp add: sextet_def encodeStd_def)
  have h: "exporterHeaders W (RemoteWrite c) tr
       = (Inr (Some [(''Authorization'', ''Basic Og=='')]), tr)"
    using exporterHeaders_inline [OF assms(1,4), of W tr] assms(2,3) e by simp
  have g: "otelGraph W c tr = Some (otelMapStructure c (Some [(''Authorization'', ''Basic Og=='')]))"
    if "Enabled c \<and> Receivers c \<noteq> [] \<and> URL (RemoteWrite c) \<noteq> []"
    using that h by (simp add: otelGraph_eq)
  have 2: "Enabled c \<and> Receivers c \<noteq> [] \<and> URL (RemoteWrite c) \<noteq> [] \<longrightarrow>
          (\<exists>g. otelGraph W c tr = Some g
             \<and> at_path [''exporters'', ''otlp'', ''headers''] g
                 = Some (StrMap (Some [(''Authorization'', ''Basic Og=='')])))"
  proof
    assume v: "Enabled c \<and> Receivers c \<noteq> [] \<and> URL (RemoteWrite c) \<noteq> []"
    show "\<exists>g. otelGraph W c tr = Some g
             \<and> at_path [''exporters'', ''otlp'', ''headers''] g
                 = Some (StrMap (Some [(''Authorization'', ''Basic Og=='')]))"
      apply (rule exI [of _ "otelMapStructure c (Some [(''Authorization'', ''Basic Og=='')])"])
      apply (simp only: g [OF v] path_headers)
      done
  qed
  have 3: "\<not> CredentialLoadError e" if "fst (otelConfig W c tr) = Inl e" for e
    using that h
    by (simp add: otelConfig_def Let_def split: if_splits prod.splits sum.splits)
       (auto)
  have 4: "\<forall>e. fst (otelConfig W c tr) = Inl e \<longrightarrow> \<not> CredentialLoadError e"
    using 3 by blast
  show ?thesis by (rule conjI [OF h conjI [OF 2 4]])
qed

theorem empty_credentials_witness:
  "BasicAuth (RemoteWrite emptyCredentials)
     = Some \<lparr>Username = [], Password = [], PasswordFile = []\<rparr>
   \<and> Enabled emptyCredentials \<and> Receivers emptyCredentials \<noteq> []
   \<and> URL (RemoteWrite emptyCredentials) \<noteq> []
   \<and> exporterHeaders loadFails (RemoteWrite emptyCredentials) []
       = (Inr (Some [(''Authorization'', ''Basic Og=='')]), [])
   \<and> (\<exists>g. otelGraph loadFails emptyCredentials [] = Some g
         \<and> at_path [''exporters'', ''otlp'', ''headers''] g
             = Some (StrMap (Some [(''Authorization'', ''Basic Og=='')])))
   \<and> fst (otelConfig loadFails emptyCredentials [])
       = Inl (fmt_Errorf ''failed to load OTel config '' (errors_New ''unknown receivers type''))
   \<and> \<not> CredentialLoadError
         (fmt_Errorf ''failed to load OTel config '' (errors_New ''unknown receivers type''))"
proof -
  have b: "BasicAuth (RemoteWrite emptyCredentials)
     = Some \<lparr>Username = [], Password = [], PasswordFile = []\<rparr>"
    by (simp add: example_defs)
  have v: "Enabled emptyCredentials" "Receivers emptyCredentials \<noteq> []"
    "URL (RemoteWrite emptyCredentials) \<noteq> []"
    by (simp_all add: example_defs)
  have r: "fst (otelConfig loadFails emptyCredentials [])
       = Inl (fmt_Errorf ''failed to load OTel config '' (errors_New ''unknown receivers type''))"
    by (simp add: run_defs example_defs loadFails_def)
  show ?thesis
    using empty_credentials [OF b, of loadFails "[]"] v r by (simp add: b)
qed

section \<open>Facts about the supervisor\<close>

lemma steps_append: "steps (xs @ ys) = steps xs @ steps ys"
  by (induction xs) (simp_all split: option.splits)

lemma steps_tracingFactories: "steps (snd (tracingFactories W tr)) = steps tr"
  by (simp add: tracingFactories_def invoke_def steps_append split: prod.splits sum.splits)

lemma steps_exporterHeaders: "steps (snd (exporterHeaders W rw tr)) = steps tr"
  by (simp add: exporterHeaders_def ReadFile_def steps_append Let_def
      split: option.splits prod.splits sum.splits)

lemma steps_tracingFactories_run:
  "tracingFactories W tr = (r, tr') \<Longrightarrow> steps tr' = steps tr"
  using steps_tracingFactories [of W tr] by simp

lemma steps_exporterHeaders_run:
  "exporterHeaders W rw tr = (r, tr') \<Longrightarrow> steps tr' = steps tr"
  using steps_exporterHeaders [of W rw tr] by simp

lemma steps_otelConfig: "steps (snd (otelConfig W c tr)) = steps tr"
  by (auto simp: otelConfig_def invoke_def steps_append Let_def
      split: prod.splits sum.splits
      dest!: steps_tracingFactories_run steps_exporterHeaders_run)

lemma steps_otelConfig_run:
  "otelConfig W c tr = (r, tr') \<Longrightarrow> steps tr' = steps tr"
  using steps_otelConfig [of W c tr] by simp

text \<open>
  The lifecycle steps of \<open>buildAndStartPipeline\<close> are always an initial part of the
  startup order, the whole of it when the function returns nil; no shutdown step
  follows a failure.
\<close>

lemma buildAndStartPipeline_steps:
  assumes "buildAndStartPipeline W cfg t tr = (err, t', tr')"
  shows "steps tr' = steps tr @ take (length (steps tr') - length (steps tr)) startup
     \<and> (err = None \<longrightarrow> steps tr' = steps tr @ startup)"
  using assms
  by (auto simp: buildAndStartPipeline_def invoke_def steps_append Let_def startup_def
      split: prod.splits sum.splits
      dest!: steps_tracingFactories_run steps_otelConfig_run)

section \<open>The claims about the supervisor\<close>

text \<open>
  C7. Whatever the collaborator answers, \<open>Stop\<close> calls the receiver shutdown, then
  the processor shutdown, then the receiver shutdown again; a call that fails is
  followed by one call to the logger with its error and nothing else; and \<open>Stop\<close>
  returns no error (its only result is the history).
\<close>

theorem stop_sequence:
  "\<exists>l1 l2 l3.
     Stop W t tr = tr @ [Receivers_ShutdownAll (receivers t)] @ l1
                      @ [BuiltPipelines_ShutdownProcessors (pipelines t)] @ l2
                      @ [Receivers_ShutdownAll (receivers t)] @ l3
     \<and> l1 = (case respond W tr (Receivers_ShutdownAll (receivers t)) of
               Inl e \<Rightarrow> [Logger_Error (logger t) ''failed to shutdown receiver'' e]
             | Inr h \<Rightarrow> [])
     \<and> l2 = (case respond W (tr @ [Receivers_ShutdownAll (receivers t)] @ l1)
                     (BuiltPipelines_ShutdownProcessors (pipelines t)) of
               Inl e \<Rightarrow> [Logger_Error (logger t) ''failed to shutdown processors'' e]
             | Inr h \<Rightarrow> [])
     \<and> l3 = (case respond W (tr @ [Receivers_ShutdownAll (receivers t)] @ l1
                              @ [BuiltPipelines_ShutdownProcessors (pipelines t)] @ l2)
                     (Receivers_ShutdownAll (receivers t)) of
               Inl e \<Rightarrow> [Logger_Error (logger t) ''failed to shutdown receivers'' e]
             | Inr h \<Rightarrow> [])
     \<and> steps (Stop W t tr)
         = steps tr @ [ShutdownReceivers, ShutdownProcessors, ShutdownReceivers]"
  by (simp add: Stop_def invoke_def steps_append split: sum.splits)

theorem stop_sequence_witness:
  "Stop (failing ShutdownReceivers) running [] =
     [Receivers_ShutdownAll (Some 3),
      Logger_Error (Some 0) ''failed to shutdown receiver'' (errors_New ''boom''),
      BuiltPipelines_ShutdownProcessors (Some 2),
      Receivers_ShutdownAll (Some 3),
      Logger_Error (Some 0) ''failed to shutdown receivers'' (errors_New ''boom'')]"
  using stop_sequence [of "failing ShutdownReceivers" running "[]"]
  by (simp add: failing_def running_def quiet_def)

text \<open>
  C8. When the build of the processor pipelines fails, after the exporters have been
  built and started, \<open>buildAndStartPipeline\<close> returns the error
  \<open>failed to build exporters\<close>: the same error as when the build of the exporters
  fails, so the error does not tell the failing stage. \<open>New\<close> passes it on, wrapped.
\<close>

theorem pipelines_build_error:
  "fst (buildAndStartPipeline (failing BuildProcessors) example fresh [])
     = Some (fmt_Errorf ''failed to build exporters '' (errors_New ''boom''))
   \<and> steps (snd (snd (buildAndStartPipeline (failing BuildProcessors) example fresh [])))
     = [BuildExporters, StartExporters, BuildProcessors]
   \<and> fst (buildAndStartPipeline (failing BuildExporters) example fresh [])
     = Some (fmt_Errorf ''failed to build exporters '' (errors_New ''boom''))
   \<and> steps (snd (snd (buildAndStartPipeline (failing BuildExporters) example fresh [])))
     = [BuildExporters]
   \<and> fst (New (failing BuildProcessors) example [])
     = Inl (fmt_Errorf ''failed to create exporter ''
             (fmt_Errorf ''failed to build exporters '' (errors_New ''boom'')))"
  by (simp add: New_def buildAndStartPipeline_def run_defs failing_def fresh_def quiet_def
      example_def)

end
